theory Spec2Isabelle
  imports Main "HOL-Library.Word"
begin

section \<open>The Lua script runtime of citizen-scripting-lua (LuaScriptRuntime.h)\<close>

text \<open>
  The header declares two classes: \<open>fx::LuaStateHolder\<close>, which owns one
  \<open>lua_State\<close>, and \<open>fx::LuaScriptRuntime\<close>, the adapter between the host and that
  state. Their inline member functions are embedded below as HOL functions; a member
  function that mutates its object takes the object and returns the updated one.

  Pointers are modelled as \<open>'a option\<close>: \<open>None\<close> is \<open>nullptr\<close>. A \<open>std::function\<close> is
  modelled the same way: \<open>None\<close> is the empty function object, whose conversion to
  \<open>bool\<close> is \<open>false\<close>. The C type \<open>int\<close> is a 32-bit word.
\<close>

subsection \<open>The Lua engine as the header uses it\<close>

text \<open>
  The Lua library is not part of the header. A call into it is recorded as an event, in
  the order in which the code makes the calls, with the arguments the code passes. An
  address stands for a non-null \<open>lua_State*\<close> or \<open>void*\<close>.
\<close>

type_synonym addr = nat

datatype gc_what = LUA_GCGEN | LUA_GCINC

datatype engine_call =
    luaL_newstate "addr option"
  | lua_rpmalloc_state "addr option" "addr option"
  | lua_gc addr gc_what int int
  | lua_close addr
  | lua_rpmalloc_free "addr option"

text \<open>
  \<open>luaL_newstate r\<close>: the call returned \<open>r\<close>. \<open>lua_rpmalloc_state r d\<close>: the call returned
  \<open>r\<close> and left \<open>d\<close> in its reference parameter \<open>opaque\<close>. The other events carry the
  arguments of the call.
\<close>

fun is_allocation :: "engine_call \<Rightarrow> bool" where
  "is_allocation (luaL_newstate r) = True"
| "is_allocation (lua_rpmalloc_state r d) = True"
| "is_allocation c = False"

datatype allocator = Default_allocator | Rpmalloc_allocator

text \<open>
  What a sequence of calls says about the state at address \<open>p\<close>: the allocator it was
  created with (\<open>luaL_newstate\<close> uses the default allocator of the auxiliary library;
  \<open>lua_rpmalloc_state\<close> is documented in the header as creating ``a \<open>lua_State\<close> instance
  with a rpmalloc allocator''), and whether the last \<open>lua_gc\<close> call on it selected the
  generational collector.
\<close>

fun allocator_of :: "addr \<Rightarrow> engine_call list \<Rightarrow> allocator option" where
  "allocator_of p [] = None"
| "allocator_of p (luaL_newstate r # cs) =
     (if r = Some p then Some Default_allocator else allocator_of p cs)"
| "allocator_of p (lua_rpmalloc_state r d # cs) =
     (if r = Some p then Some Rpmalloc_allocator else allocator_of p cs)"
| "allocator_of p (c # cs) = allocator_of p cs"

fun gc_mode :: "addr \<Rightarrow> engine_call list \<Rightarrow> gc_what option" where
  "gc_mode p [] = None"
| "gc_mode p (c # cs) =
     (case gc_mode p cs of
        Some w \<Rightarrow> Some w
      | None \<Rightarrow> (case c of lua_gc q w a b \<Rightarrow> if q = p then Some w else None | _ \<Rightarrow> None))"

subsection \<open>LuaStateHolder\<close>

text \<open>
  \<open>rpmalloc_data\<close> exists only when \<open>LUA_USE_RPMALLOC\<close> is defined (the header defines
  it on \<open>_WIN32\<close>); in the other build the field stays \<open>None\<close> and no function reads it.
  The macro is the parameter \<open>use_rpmalloc\<close> of the functions below.
\<close>

record LuaStateHolder =
  m_state :: "addr option"
  rpmalloc_data :: "addr option"

datatype fault = Null_dereference

text \<open>
  The constructor. What the allocation returns is decided by the engine, so it is a
  parameter: \<open>ret\<close> is the returned \<open>lua_State*\<close> and \<open>opaque\<close> the pointer that
  \<open>lua_rpmalloc_state\<close> stores through its reference parameter. The constructor does
  not test the returned pointer before \<open>lua_gc\<close> uses it: a null state is a fault.
\<close>

definition LuaStateHolder_ctor ::
  "bool \<Rightarrow> addr option \<Rightarrow> addr option \<Rightarrow> fault + (LuaStateHolder \<times> engine_call list)" where
  "LuaStateHolder_ctor use_rpmalloc ret opaque =
     (let (h, calls) =
            (if use_rpmalloc
             then (\<lparr>m_state = ret, rpmalloc_data = opaque\<rparr>, [lua_rpmalloc_state ret opaque])
             else (\<lparr>m_state = ret, rpmalloc_data = None\<rparr>, [luaL_newstate ret]))
      in case m_state h of
           None \<Rightarrow> Inl Null_dereference
         | Some p \<Rightarrow> Inr (h, calls @ [lua_gc p LUA_GCGEN 0 0]))"

text \<open>
  \<open>Close\<close>, on a holder together with the calls made so far; it appends the calls it
  makes.
\<close>

definition Close ::
  "bool \<Rightarrow> LuaStateHolder \<times> engine_call list \<Rightarrow> LuaStateHolder \<times> engine_call list" where
  "Close use_rpmalloc w =
     (case w of (h, calls) \<Rightarrow>
        (case m_state h of
           Some p \<Rightarrow>
             (if use_rpmalloc
              then (h\<lparr>rpmalloc_data := None, m_state := None\<rparr>,
                    calls @ [lua_close p, lua_rpmalloc_free (rpmalloc_data h)])
              else (h\<lparr>m_state := None\<rparr>, calls @ [lua_close p]))
         | None \<Rightarrow> (h, calls)))"

text \<open>The destructor \<open>~LuaStateHolder\<close>: its body is the call of \<open>Close\<close>.\<close>

definition LuaStateHolder_dtor ::
  "bool \<Rightarrow> LuaStateHolder \<times> engine_call list \<Rightarrow> LuaStateHolder \<times> engine_call list" where
  "LuaStateHolder_dtor use_rpmalloc w = Close use_rpmalloc w"

definition Get :: "LuaStateHolder \<Rightarrow> addr option" where
  "Get h = m_state h"

text \<open>The calls by which \<open>Close\<close> releases what the holder \<open>h\<close> owns.\<close>

definition release_calls :: "bool \<Rightarrow> LuaStateHolder \<Rightarrow> engine_call list" where
  "release_calls use_rpmalloc h =
     (case m_state h of
        None \<Rightarrow> []
      | Some p \<Rightarrow>
          lua_close p # (if use_rpmalloc then [lua_rpmalloc_free (rpmalloc_data h)] else []))"

subsection \<open>LuaScriptRuntime: data\<close>

datatype LuaProfilingMode = Mode_None | Setup | Profiling | Shutdown

text \<open>
  The stack of the Lua state that a \<open>lua_State*\<close> argument points to, bottom first.
  \<open>lua_pushnil\<close> pushes one nil value.
\<close>

datatype lua_value = LuaNil | LuaBoolean bool | LuaInteger int | LuaString string

type_synonym lua_stack = "lua_value list"

definition lua_pushnil :: "lua_stack \<Rightarrow> lua_stack" where
  "lua_pushnil L = L @ [LuaNil]"

text \<open>
  \<open>IScriptHostWithResourceData\<close> is declared elsewhere; of a host the header uses only
  \<open>GetResourceName(char**)\<close>. A host is modelled by the pointer that this call leaves
  in the pointed-to variable: \<open>None\<close> when it stores a null pointer or stores nothing.
\<close>

record IScriptHostWithResourceData =
  GetResourceName_out :: "string option"

text \<open>
  Modelled from the spec: the meaning of a pending bookmark. The header declares the
  container, \<open>std::list<std::tuple<uint64_t, int>>\<close>, and so the types of the two
  components; the data model says that an entry is a pair of a due time and a bookmark
  identifier. The due time is the \<open>uint64_t\<close>, a tick time, and the identifier the \<open>int\<close>.
\<close>

type_synonym pending_bookmark = "64 word \<times> 32 word"

text \<open>
  The fields of \<open>LuaScriptRuntime\<close> that the functions below read or write. The types
  of the four routines that are only stored are parameters; \<open>TResultAsObjectRoutine\<close>,
  which \<open>ResultAsObject\<close> calls, acts on the Lua stack it is given.
\<close>

record ('callref, 'dupref, 'delref, 'strace) LuaScriptRuntime =
  m_resourceHost :: "IScriptHostWithResourceData option"
  m_callRefRoutine :: "'callref option"
  m_duplicateRefRoutine :: "'dupref option"
  m_deleteRefRoutine :: "'delref option"
  m_stackTraceRoutine :: "'strace option"
  m_resultAsObjectRoutine :: "(lua_stack \<Rightarrow> string \<Rightarrow> lua_stack) option"
  m_boundaryRoutine :: "32 word"
  m_instanceId :: "32 word"
  m_profilingMode :: LuaProfilingMode
  m_pendingBookmarks :: "pending_bookmark list"

subsection \<open>LuaScriptRuntime: construction\<close>

text \<open>
  The constructor runs the default member initialisers and then assigns
  \<open>m_instanceId = rand()\<close>. \<open>rand\<close> is the C library's: a function of the hidden
  generator state of the process, returning a value and the next state. It is the
  parameter \<open>rand\<close>, with the generator state \<open>g\<close>.
\<close>

definition LuaScriptRuntime_ctor ::
  "('g \<Rightarrow> 32 word \<times> 'g) \<Rightarrow> 'g \<Rightarrow> ('cr, 'dr, 'de, 'st) LuaScriptRuntime \<times> 'g" where
  "LuaScriptRuntime_ctor rand g =
     (case rand g of (v, g') \<Rightarrow>
        (\<lparr>m_resourceHost = None,
          m_callRefRoutine = None,
          m_duplicateRefRoutine = None,
          m_deleteRefRoutine = None,
          m_stackTraceRoutine = None,
          m_resultAsObjectRoutine = None,
          m_boundaryRoutine = 0,
          m_instanceId = v,
          m_profilingMode = Mode_None,
          m_pendingBookmarks = []\<rparr>, g'))"

text \<open>The runtimes that \<open>n\<close> constructor calls in a row create in one process.\<close>

fun construct ::
  "('g \<Rightarrow> 32 word \<times> 'g) \<Rightarrow> 'g \<Rightarrow> nat \<Rightarrow> ('cr, 'dr, 'de, 'st) LuaScriptRuntime list" where
  "construct rand g 0 = []"
| "construct rand g (Suc n) =
     (case LuaScriptRuntime_ctor rand g of (rt, g') \<Rightarrow> rt # construct rand g' n)"

text \<open>The first \<open>n\<close> values that \<open>rand\<close> returns from the generator state \<open>g\<close>.\<close>

fun draws :: "('g \<Rightarrow> 32 word \<times> 'g) \<Rightarrow> 'g \<Rightarrow> nat \<Rightarrow> 32 word list" where
  "draws rand g 0 = []"
| "draws rand g (Suc n) = (case rand g of (v, g') \<Rightarrow> v # draws rand g' n)"

text \<open>
  One \<open>rand\<close>, for concrete runs: the linear congruential generator of the Microsoft C
  runtime (the header selects its Windows configuration on \<open>_WIN32\<close>). Its state is a
  32-bit word, 1 in a process that never called \<open>srand\<close>; a call multiplies the state
  by 214013, adds 2531011 and returns bits 16 to 30 of the new state.
\<close>

definition msvc_rand :: "32 word \<Rightarrow> 32 word \<times> 32 word" where
  "msvc_rand holdrand =
     (let h = holdrand * 214013 + 2531011 in (and (drop_bit 16 h) 0x7fff, h))"

subsection \<open>LuaScriptRuntime: the inline member functions\<close>

definition SetCallRefRoutine ::
  "'cr option \<Rightarrow> ('cr, 'dr, 'de, 'st) LuaScriptRuntime \<Rightarrow> ('cr, 'dr, 'de, 'st) LuaScriptRuntime" where
  "SetCallRefRoutine routine rt =
     (if m_callRefRoutine rt = None then rt\<lparr>m_callRefRoutine := routine\<rparr> else rt)"

definition SetDuplicateRefRoutine ::
  "'dr option \<Rightarrow> ('cr, 'dr, 'de, 'st) LuaScriptRuntime \<Rightarrow> ('cr, 'dr, 'de, 'st) LuaScriptRuntime" where
  "SetDuplicateRefRoutine routine rt =
     (if m_duplicateRefRoutine rt = None then rt\<lparr>m_duplicateRefRoutine := routine\<rparr> else rt)"

definition SetDeleteRefRoutine ::
  "'de option \<Rightarrow> ('cr, 'dr, 'de, 'st) LuaScriptRuntime \<Rightarrow> ('cr, 'dr, 'de, 'st) LuaScriptRuntime" where
  "SetDeleteRefRoutine routine rt =
     (if m_deleteRefRoutine rt = None then rt\<lparr>m_deleteRefRoutine := routine\<rparr> else rt)"

definition SetStackTraceRoutine ::
  "'st option \<Rightarrow> ('cr, 'dr, 'de, 'st) LuaScriptRuntime \<Rightarrow> ('cr, 'dr, 'de, 'st) LuaScriptRuntime" where
  "SetStackTraceRoutine routine rt =
     (if m_stackTraceRoutine rt = None then rt\<lparr>m_stackTraceRoutine := routine\<rparr> else rt)"

definition GetBoundaryRoutine :: "('cr, 'dr, 'de, 'st) LuaScriptRuntime \<Rightarrow> 32 word" where
  "GetBoundaryRoutine rt = m_boundaryRoutine rt"

definition SetBoundaryRoutine ::
  "32 word \<Rightarrow> ('cr, 'dr, 'de, 'st) LuaScriptRuntime \<Rightarrow> ('cr, 'dr, 'de, 'st) LuaScriptRuntime" where
  "SetBoundaryRoutine routine rt =
     (if m_boundaryRoutine rt = 0 then rt\<lparr>m_boundaryRoutine := routine\<rparr> else rt)"

definition SetResultAsObjectRoutine ::
  "(lua_stack \<Rightarrow> string \<Rightarrow> lua_stack) option \<Rightarrow> ('cr, 'dr, 'de, 'st) LuaScriptRuntime
     \<Rightarrow> ('cr, 'dr, 'de, 'st) LuaScriptRuntime" where
  "SetResultAsObjectRoutine routine rt =
     (if m_resultAsObjectRoutine rt = None then rt\<lparr>m_resultAsObjectRoutine := routine\<rparr> else rt)"

text \<open>\<open>ResultAsObject\<close> returns nothing; its effect is on the stack of \<open>L\<close>.\<close>

definition ResultAsObject ::
  "('cr, 'dr, 'de, 'st) LuaScriptRuntime \<Rightarrow> lua_stack \<Rightarrow> string \<Rightarrow> lua_stack" where
  "ResultAsObject rt L object =
     (case m_resultAsObjectRoutine rt of
        Some routine \<Rightarrow> routine L object
      | None \<Rightarrow> lua_pushnil L)"

text \<open>
  \<open>GetResourceName\<close> returns a \<open>const char*\<close>: \<open>Some s\<close> points to the string \<open>s\<close>. The
  function calls through \<open>m_resourceHost\<close> without a test, so a null host is a fault.
\<close>

definition emptyResourceName :: string where
  "emptyResourceName = ''''"

definition GetResourceName ::
  "('cr, 'dr, 'de, 'st) LuaScriptRuntime \<Rightarrow> fault + string option" where
  "GetResourceName rt =
     (case m_resourceHost rt of
        None \<Rightarrow> Inl Null_dereference
      | Some host \<Rightarrow>
          (let resourceName = GetResourceName_out host
           in if resourceName = None then Inr (Some emptyResourceName) else Inr resourceName))"

text \<open>Sequences of calls to one setter, first call first.\<close>

definition first_nonempty :: "'a option list \<Rightarrow> 'a option" where
  "first_nonempty rs = (case find (\<lambda>r. r \<noteq> None) rs of None \<Rightarrow> None | Some r \<Rightarrow> r)"

definition first_nonzero :: "32 word list \<Rightarrow> 32 word" where
  "first_nonzero rs = (case find (\<lambda>r. r \<noteq> 0) rs of None \<Rightarrow> 0 | Some r \<Rightarrow> r)"

text \<open>
  A runtime as the constructor leaves it, for concrete runs: the first one of a process
  that never called \<open>srand\<close>. Routines are named by numbers here.
\<close>

definition fresh_runtime :: "(nat, nat, nat, nat) LuaScriptRuntime" where
  "fresh_runtime = fst (LuaScriptRuntime_ctor msvc_rand 1)"

subsection \<open>The profiler tick\<close>

text \<open>
  Modelled from the spec: the order of the profiler state machine, which the header
  gives only as the enumeration. The design (section 4.5) says:
  \<open>None \<rightarrow> Setup \<rightarrow> Profiling \<rightarrow> Shutdown \<rightarrow> None\<close>.
\<close>

fun profiling_successor :: "LuaProfilingMode \<Rightarrow> LuaProfilingMode" where
  "profiling_successor Mode_None = Setup"
| "profiling_successor Setup = Profiling"
| "profiling_successor Profiling = Shutdown"
| "profiling_successor Shutdown = Mode_None"

text \<open>
  Modelled from the spec: the body of \<open>IScriptProfiler_Tick\<close>, which the header only
  declares. The design (section 4.5 and the testable properties) says: \<open>tick(begin)\<close>
  drives the transition; \<open>begin=true\<close> moves \<open>None \<rightarrow> Setup \<rightarrow> Profiling\<close>; \<open>begin=false\<close>
  moves \<open>Profiling \<rightarrow> Shutdown \<rightarrow> None\<close>; \<open>tick(begin=true)\<close> while already \<open>Profiling\<close> is
  a no-op; \<open>tick(begin=false)\<close> while \<open>None\<close> is a no-op. The spec names no other
  transition, so no other call changes the mode. The model returns the runtime and
  the modes that the call assigned to \<open>m_profilingMode\<close>, in order; the spec does not
  say what the \<open>bool\<close> result is, and the model has none.
\<close>

definition IScriptProfiler_Tick ::
  "bool \<Rightarrow> ('cr, 'dr, 'de, 'st) LuaScriptRuntime
     \<Rightarrow> ('cr, 'dr, 'de, 'st) LuaScriptRuntime \<times> LuaProfilingMode list" where
  "IScriptProfiler_Tick begin' rt =
     (if begin' \<and> m_profilingMode rt = Mode_None
      then (rt\<lparr>m_profilingMode := Profiling\<rparr>, [Setup, Profiling])
      else if \<not> begin' \<and> m_profilingMode rt = Profiling
      then (rt\<lparr>m_profilingMode := Mode_None\<rparr>, [Shutdown, Mode_None])
      else (rt, []))"

text \<open>A sequence of ticks, first call first, with all the modes assigned on the way.\<close>

fun profiler_ticks ::
  "bool list \<Rightarrow> ('cr, 'dr, 'de, 'st) LuaScriptRuntime
     \<Rightarrow> ('cr, 'dr, 'de, 'st) LuaScriptRuntime \<times> LuaProfilingMode list" where
  "profiler_ticks [] rt = (rt, [])"
| "profiler_ticks (b # bs) rt =
     (case IScriptProfiler_Tick b rt of (rt', modes) \<Rightarrow>
        (case profiler_ticks bs rt' of (rt'', modes') \<Rightarrow> (rt'', modes @ modes')))"

subsection \<open>The bookmark scheduler\<close>









section \<open>Properties\<close>

subsection \<open>LuaStateHolder\<close>

lemma Close_closed: "m_state h = None \<Longrightarrow> Close rp (h, calls) = (h, calls)"
  by (simp add: Close_def)

lemma Close_m_state: "m_state (fst (Close rp w)) = None"
  by (cases w) (simp add: Close_def split: option.splits)

lemma Close_calls: "snd (Close rp (h, calls)) = calls @ release_calls rp h"
  by (simp add: Close_def release_calls_def split: option.splits)

lemma Close_twice: "Close rp (Close rp w) = Close rp w"
proof (cases "Close rp w")
  case (Pair h' calls')
  have "m_state h' = None"
    using Close_m_state [of rp w] Pair by simp
  then show ?thesis
    using Pair by (simp add: Close_closed)
qed

text \<open>
  C3. \<open>Close\<close> is idempotent and destruction closes the state: closing twice is closing
  once; on a holder whose state is already null \<open>Close\<close> changes nothing and makes no
  call; the destructor is \<open>Close\<close>; after \<open>Close\<close> the state pointer is null; and two
  calls of \<open>Close\<close> release the state (and, with rpmalloc, its heap) exactly once.
\<close>

theorem Close_idempotent:
  "Close rp (Close rp w) = Close rp w
   \<and> Close rp (h\<lparr>m_state := None\<rparr>, calls) = (h\<lparr>m_state := None\<rparr>, calls)
   \<and> LuaStateHolder_dtor rp w = Close rp w
   \<and> Get (fst (Close rp w)) = None
   \<and> snd (Close rp (Close rp (h, calls))) = calls @ release_calls rp h
   \<and> length (filter (\<lambda>c. c = lua_close p) (release_calls rp h)) \<le> 1"
proof -
  have "snd (Close rp (Close rp (h, calls))) = calls @ release_calls rp h"
    by (simp only: Close_twice Close_calls)
  moreover have "length (filter (\<lambda>c. c = lua_close p) (release_calls rp h)) \<le> 1"
    by (simp add: release_calls_def split: option.splits)
  ultimately show ?thesis
    by (simp add: Close_twice Close_closed LuaStateHolder_dtor_def Get_def Close_m_state)
qed

lemma LuaStateHolder_ctor_null: "LuaStateHolder_ctor rp None d = Inl Null_dereference"
  by (simp add: LuaStateHolder_ctor_def)

text \<open>
  C7. When the allocation returns a state \<open>p\<close>, the constructor returns a holder of
  \<open>p\<close> after exactly two engine calls: one allocation (\<open>lua_rpmalloc_state\<close> in the
  rpmalloc build, \<open>luaL_newstate\<close> otherwise), then \<open>lua_gc(p, LUA_GCGEN, 0, 0)\<close>. So
  exactly one state is allocated, with the rpmalloc allocator where that is configured
  and the default one otherwise, and it is in generational mode when the constructor
  returns.
\<close>

theorem LuaStateHolder_ctor_allocates_once:
  "(case LuaStateHolder_ctor rp (Some p) d of
      Inl f \<Rightarrow> False
    | Inr (h, calls) \<Rightarrow>
        Get h = Some p
        \<and> calls = [if rp then lua_rpmalloc_state (Some p) d else luaL_newstate (Some p),
                    lua_gc p LUA_GCGEN 0 0]
        \<and> length (filter is_allocation calls) = 1
        \<and> allocator_of p calls = Some (if rp then Rpmalloc_allocator else Default_allocator)
        \<and> gc_mode p calls = Some LUA_GCGEN)"
  by (simp add: LuaStateHolder_ctor_def Get_def)

subsection \<open>Instance ids\<close>

lemma construct_ids: "map m_instanceId (construct rand g n) = draws rand g n"
  by (induction n arbitrary: g) (simp_all add: LuaScriptRuntime_ctor_def split: prod.splits)

lemma construct_two:
  "construct rand g 2 =
     (case LuaScriptRuntime_ctor rand g of (r1, g1) \<Rightarrow>
        (case LuaScriptRuntime_ctor rand g1 of (r2, g2) \<Rightarrow> [r1, r2]))"
  by (simp add: numeral_2_eq_2 split: prod.splits)

lemma bounded_words_not_distinct:
  fixes xs :: "32 word list"
  assumes "\<forall>x \<in> set xs. unat x \<le> b" and "b + 1 < length xs"
  shows "\<not> distinct xs"
proof
  assume d: "distinct xs"
  have "inj_on unat (set xs)"
    by (rule inj_onI) (simp add: word_unat_eq_iff)
  then have "card (unat ` set xs) = length xs"
    using d by (simp add: card_image distinct_card)
  moreover have "unat ` set xs \<subseteq> {0..b}"
    using assms(1) by auto
  then have "card (unat ` set xs) \<le> card {0..b}"
    by (intro card_mono) simp_all
  ultimately show False
    using assms(2) by simp
qed

text \<open>
  Whatever \<open>rand\<close> is: when its values lie between 0 and \<open>RAND_MAX\<close>, more than
  \<open>RAND_MAX + 1\<close> runtimes of one process cannot all have different ids.
\<close>

lemma instance_ids_pigeonhole:
  assumes "\<forall>v \<in> set (draws rand g n). unat v \<le> RAND_MAX" and "RAND_MAX + 1 < n"
  shows "\<not> distinct (map m_instanceId (construct rand g n))"
proof -
  have "length (draws rand g n) = n"
    by (induction n arbitrary: g) (simp_all split: prod.splits)
  then show ?thesis
    using assms bounded_words_not_distinct [of "draws rand g n" RAND_MAX]
    by (simp add: construct_ids)
qed

text \<open>
  C1, as the code has it. The id of a runtime is the value that \<open>rand()\<close> returned in
  its constructor, and the constructor advances the generator by that one call: the
  ids of the runtimes of a process are the successive values of \<open>rand()\<close>, and they are
  pairwise different exactly when those values are.
\<close>

theorem instance_id_is_rand_value:
  "map m_instanceId (construct rand g n) = draws rand g n
   \<and> m_instanceId (fst (LuaScriptRuntime_ctor rand g)) = fst (rand g)
   \<and> snd (LuaScriptRuntime_ctor rand g) = snd (rand g)
   \<and> distinct (map m_instanceId (construct rand g n)) = distinct (draws rand g n)"
  by (simp add: construct_ids LuaScriptRuntime_ctor_def split: prod.splits)

text \<open>
  C1 as stated fails. In a process whose generator state is 44712 (as after
  \<open>srand(44712)\<close>), \<open>rand()\<close> returns 14977 twice in a row, so two runtimes constructed
  one after the other both get the id 14977.
\<close>

theorem instance_id_collision:
  "map m_instanceId (construct msvc_rand 44712 2 :: (unit, unit, unit, unit) LuaScriptRuntime list)
     = [14977, 14977]
   \<and> \<not> distinct (map m_instanceId
          (construct msvc_rand 44712 2 :: (unit, unit, unit, unit) LuaScriptRuntime list))"
  by (simp add: construct_two LuaScriptRuntime_ctor_def msvc_rand_def)

subsection \<open>Set-once routines\<close>

lemma SetCallRefRoutine_calls:
  "m_callRefRoutine (foldl (\<lambda>rt r. SetCallRefRoutine r rt) rt rs) =
     (case m_callRefRoutine rt of Some f \<Rightarrow> Some f | None \<Rightarrow> first_nonempty rs)"
  by (induction rs arbitrary: rt)
     (auto simp: SetCallRefRoutine_def first_nonempty_def split: option.splits)

lemma SetDuplicateRefRoutine_calls:
  "m_duplicateRefRoutine (foldl (\<lambda>rt r. SetDuplicateRefRoutine r rt) rt rs) =
     (case m_duplicateRefRoutine rt of Some f \<Rightarrow> Some f | None \<Rightarrow> first_nonempty rs)"
  by (induction rs arbitrary: rt)
     (auto simp: SetDuplicateRefRoutine_def first_nonempty_def split: option.splits)

lemma SetDeleteRefRoutine_calls:
  "m_deleteRefRoutine (foldl (\<lambda>rt r. SetDeleteRefRoutine r rt) rt rs) =
     (case m_deleteRefRoutine rt of Some f \<Rightarrow> Some f | None \<Rightarrow> first_nonempty rs)"
  by (induction rs arbitrary: rt)
     (auto simp: SetDeleteRefRoutine_def first_nonempty_def split: option.splits)

lemma SetStackTraceRoutine_calls:
  "m_stackTraceRoutine (foldl (\<lambda>rt r. SetStackTraceRoutine r rt) rt rs) =
     (case m_stackTraceRoutine rt of Some f \<Rightarrow> Some f | None \<Rightarrow> first_nonempty rs)"
  by (induction rs arbitrary: rt)
     (auto simp: SetStackTraceRoutine_def first_nonempty_def split: option.splits)

lemma SetResultAsObjectRoutine_calls:
  "m_resultAsObjectRoutine (foldl (\<lambda>rt r. SetResultAsObjectRoutine r rt) rt rs) =
     (case m_resultAsObjectRoutine rt of Some f \<Rightarrow> Some f | None \<Rightarrow> first_nonempty rs)"
  by (induction rs arbitrary: rt)
     (auto simp: SetResultAsObjectRoutine_def first_nonempty_def split: option.splits)

lemma set_populated_noop:
  "SetCallRefRoutine r1 (rt\<lparr>m_callRefRoutine := Some f1\<rparr>) = rt\<lparr>m_callRefRoutine := Some f1\<rparr>"
  "SetDuplicateRefRoutine r2 (rt\<lparr>m_duplicateRefRoutine := Some f2\<rparr>) =
     rt\<lparr>m_duplicateRefRoutine := Some f2\<rparr>"
  "SetDeleteRefRoutine r3 (rt\<lparr>m_deleteRefRoutine := Some f3\<rparr>) =
     rt\<lparr>m_deleteRefRoutine := Some f3\<rparr>"
  "SetStackTraceRoutine r4 (rt\<lparr>m_stackTraceRoutine := Some f4\<rparr>) =
     rt\<lparr>m_stackTraceRoutine := Some f4\<rparr>"
  "SetResultAsObjectRoutine r5 (rt\<lparr>m_resultAsObjectRoutine := Some f5\<rparr>) =
     rt\<lparr>m_resultAsObjectRoutine := Some f5\<rparr>"
  by (simp_all add: SetCallRefRoutine_def SetDuplicateRefRoutine_def SetDeleteRefRoutine_def
      SetStackTraceRoutine_def SetResultAsObjectRoutine_def)

text \<open>
  C2, as the code has it. Each of the five setters writes its slot only while the slot
  is empty. On a slot that holds a routine the call changes nothing; over any sequence
  of calls to one setter the slot keeps the routine it held, or, when it was empty,
  ends with the first non-empty routine of the sequence (and stays empty when there is
  none).
\<close>

theorem routine_setters_first_nonempty_wins:
  "m_callRefRoutine (foldl (\<lambda>rt r. SetCallRefRoutine r rt) rt rs1) =
     (case m_callRefRoutine rt of Some f \<Rightarrow> Some f | None \<Rightarrow> first_nonempty rs1)
   \<and> m_duplicateRefRoutine (foldl (\<lambda>rt r. SetDuplicateRefRoutine r rt) rt rs2) =
     (case m_duplicateRefRoutine rt of Some f \<Rightarrow> Some f | None \<Rightarrow> first_nonempty rs2)
   \<and> m_deleteRefRoutine (foldl (\<lambda>rt r. SetDeleteRefRoutine r rt) rt rs3) =
     (case m_deleteRefRoutine rt of Some f \<Rightarrow> Some f | None \<Rightarrow> first_nonempty rs3)
   \<and> m_stackTraceRoutine (foldl (\<lambda>rt r. SetStackTraceRoutine r rt) rt rs4) =
     (case m_stackTraceRoutine rt of Some f \<Rightarrow> Some f | None \<Rightarrow> first_nonempty rs4)
   \<and> m_resultAsObjectRoutine (foldl (\<lambda>rt r. SetResultAsObjectRoutine r rt) rt rs5) =
     (case m_resultAsObjectRoutine rt of Some f \<Rightarrow> Some f | None \<Rightarrow> first_nonempty rs5)
   \<and> SetCallRefRoutine r1 (rt\<lparr>m_callRefRoutine := Some f1\<rparr>) = rt\<lparr>m_callRefRoutine := Some f1\<rparr>
   \<and> SetDuplicateRefRoutine r2 (rt\<lparr>m_duplicateRefRoutine := Some f2\<rparr>) =
     rt\<lparr>m_duplicateRefRoutine := Some f2\<rparr>
   \<and> SetDeleteRefRoutine r3 (rt\<lparr>m_deleteRefRoutine := Some f3\<rparr>) =
     rt\<lparr>m_deleteRefRoutine := Some f3\<rparr>
   \<and> SetStackTraceRoutine r4 (rt\<lparr>m_stackTraceRoutine := Some f4\<rparr>) =
     rt\<lparr>m_stackTraceRoutine := Some f4\<rparr>
   \<and> SetResultAsObjectRoutine r5 (rt\<lparr>m_resultAsObjectRoutine := Some f5\<rparr>) =
     rt\<lparr>m_resultAsObjectRoutine := Some f5\<rparr>"
  by (simp only: SetCallRefRoutine_calls SetDuplicateRefRoutine_calls SetDeleteRefRoutine_calls
      SetStackTraceRoutine_calls SetResultAsObjectRoutine_calls set_populated_noop simp_thms)

text \<open>
  C2 as stated fails. On a fresh runtime, a first call that passes an empty
  \<open>std::function\<close> leaves the slot empty, and the second call is then not a no-op: it
  stores its routine. So the first call did not populate the slot and the routine of
  the second call, not of the first, is the one in place.
\<close>

theorem routine_setter_second_call_writes:
  "m_callRefRoutine (SetCallRefRoutine None fresh_runtime) = None
   \<and> m_callRefRoutine (SetCallRefRoutine (Some 2) (SetCallRefRoutine None fresh_runtime)) = Some 2
   \<and> SetCallRefRoutine (Some 2) (SetCallRefRoutine None fresh_runtime)
       \<noteq> SetCallRefRoutine None fresh_runtime
   \<and> m_resultAsObjectRoutine (SetResultAsObjectRoutine (Some (\<lambda>L object. L))
         (SetResultAsObjectRoutine None fresh_runtime)) \<noteq> None"
  by (simp add: fresh_runtime_def LuaScriptRuntime_ctor_def SetCallRefRoutine_def
      SetResultAsObjectRoutine_def split: prod.splits)

subsection \<open>The boundary routine\<close>

lemma SetBoundaryRoutine_calls:
  "GetBoundaryRoutine (foldl (\<lambda>rt r. SetBoundaryRoutine r rt) rt rs) =
     (if m_boundaryRoutine rt = 0 then first_nonzero rs else m_boundaryRoutine rt)"
  by (induction rs arbitrary: rt)
     (auto simp: SetBoundaryRoutine_def GetBoundaryRoutine_def first_nonzero_def)

lemma SetBoundaryRoutine_calls_nonzero:
  "m_boundaryRoutine rt \<noteq> 0 \<Longrightarrow> foldl (\<lambda>rt r. SetBoundaryRoutine r rt) rt rs = rt"
  by (induction rs arbitrary: rt) (simp_all add: SetBoundaryRoutine_def)

text \<open>
  C4, as the code has it. The first nonzero identifier wins. Over any sequence of
  \<open>SetBoundaryRoutine\<close> calls, \<open>GetBoundaryRoutine\<close> afterwards returns the identifier
  stored before when that was nonzero, and otherwise the first nonzero identifier of
  the sequence (0 when there is none); once the stored identifier is nonzero, no
  sequence of calls changes the runtime.
\<close>

theorem boundary_routine_first_nonzero_wins:
  "GetBoundaryRoutine (foldl (\<lambda>rt r. SetBoundaryRoutine r rt) rt rs) =
     (if GetBoundaryRoutine rt = 0 then first_nonzero rs else GetBoundaryRoutine rt)
   \<and> (GetBoundaryRoutine rt \<noteq> 0 \<longrightarrow> foldl (\<lambda>rt r. SetBoundaryRoutine r rt) rt rs = rt)"
  using SetBoundaryRoutine_calls [of rt rs] SetBoundaryRoutine_calls_nonzero [of rt rs]
  by (simp add: GetBoundaryRoutine_def)

theorem boundary_routine_first_nonzero_wins_witness:
  "GetBoundaryRoutine (SetBoundaryRoutine 5 fresh_runtime) \<noteq> 0
   \<and> foldl (\<lambda>rt r. SetBoundaryRoutine r rt) (SetBoundaryRoutine 5 fresh_runtime) [0, 9]
       = SetBoundaryRoutine 5 fresh_runtime
   \<and> GetBoundaryRoutine (foldl (\<lambda>rt r. SetBoundaryRoutine r rt) fresh_runtime [0, 5, 0, 9]) = 5"
  using boundary_routine_first_nonzero_wins [of "SetBoundaryRoutine 5 fresh_runtime" "[0, 9]"]
  by (simp add: fresh_runtime_def LuaScriptRuntime_ctor_def SetBoundaryRoutine_def
      GetBoundaryRoutine_def split: prod.splits)

text \<open>
  C4 as stated fails. When the first registered identifier is 0, a later call
  overwrites it: after \<open>SetBoundaryRoutine(0)\<close> and \<open>SetBoundaryRoutine(7)\<close> on a fresh
  runtime, \<open>GetBoundaryRoutine\<close> returns 7.
\<close>

theorem boundary_routine_zero_overwritten:
  "GetBoundaryRoutine (SetBoundaryRoutine 0 fresh_runtime) = 0
   \<and> GetBoundaryRoutine (SetBoundaryRoutine 7 (SetBoundaryRoutine 0 fresh_runtime)) = 7"
  by (simp add: fresh_runtime_def LuaScriptRuntime_ctor_def SetBoundaryRoutine_def
      GetBoundaryRoutine_def split: prod.splits)

text \<open>
  C10. The guard of \<open>SetBoundaryRoutine\<close> tests the stored value against zero. A
  constructed runtime stores 0; \<open>SetBoundaryRoutine(0)\<close> on it changes nothing, and the
  call after it records its identifier \<open>r\<close>, whatever \<open>r\<close> is. In general the call
  writes exactly when the stored value is 0.
\<close>

theorem SetBoundaryRoutine_tests_zero:
  "GetBoundaryRoutine (fst (LuaScriptRuntime_ctor rand g)) = 0
   \<and> SetBoundaryRoutine 0 (fst (LuaScriptRuntime_ctor rand g)) = fst (LuaScriptRuntime_ctor rand g)
   \<and> GetBoundaryRoutine
        (SetBoundaryRoutine r (SetBoundaryRoutine 0 (fst (LuaScriptRuntime_ctor rand g)))) = r
   \<and> GetBoundaryRoutine (SetBoundaryRoutine r (SetBoundaryRoutine 0 (rt\<lparr>m_boundaryRoutine := 0\<rparr>))) = r
   \<and> SetBoundaryRoutine r rt =
        (if GetBoundaryRoutine rt = 0 then rt\<lparr>m_boundaryRoutine := r\<rparr> else rt)"
  by (simp add: LuaScriptRuntime_ctor_def SetBoundaryRoutine_def GetBoundaryRoutine_def
      split: prod.splits)

subsection \<open>ResultAsObject and GetResourceName\<close>

text \<open>
  C8. With no result-as-object routine (the state of a constructed runtime, and of one
  whose only injection was an empty routine) \<open>ResultAsObject\<close> pushes one nil on the
  stack of \<open>L\<close> and does nothing else; with a routine in the slot it is the call of that
  routine on \<open>L\<close> and the object string.
\<close>

theorem ResultAsObject_nil_or_routine:
  "ResultAsObject (rt\<lparr>m_resultAsObjectRoutine := None\<rparr>) L object = lua_pushnil L
   \<and> ResultAsObject (fst (LuaScriptRuntime_ctor rand g)) L object = L @ [LuaNil]
   \<and> ResultAsObject (SetResultAsObjectRoutine None (fst (LuaScriptRuntime_ctor rand g))) L object
       = L @ [LuaNil]
   \<and> ResultAsObject (rt\<lparr>m_resultAsObjectRoutine := Some routine\<rparr>) L object = routine L object
   \<and> ResultAsObject (SetResultAsObjectRoutine (Some routine) (fst (LuaScriptRuntime_ctor rand g)))
         L object = routine L object"
  by (simp add: ResultAsObject_def lua_pushnil_def SetResultAsObjectRoutine_def
      LuaScriptRuntime_ctor_def split: prod.splits)

lemma GetResourceName_null_host:
  "GetResourceName (rt\<lparr>m_resourceHost := None\<rparr>) = Inl Null_dereference"
  by (simp add: GetResourceName_def)

text \<open>
  C9. \<open>GetResourceName\<close> never returns a null pointer. When the host leaves a null
  pointer it returns the empty string, and otherwise the string of the host.
\<close>

theorem GetResourceName_never_null:
  "GetResourceName rt \<noteq> Inr None
   \<and> GetResourceName (rt\<lparr>m_resourceHost := Some \<lparr>GetResourceName_out = None\<rparr>\<rparr>) = Inr (Some '''')
   \<and> GetResourceName (rt\<lparr>m_resourceHost := Some \<lparr>GetResourceName_out = Some s\<rparr>\<rparr>) = Inr (Some s)"
  by (simp add: GetResourceName_def emptyResourceName_def Let_def split: option.splits)

subsection \<open>The profiler tick\<close>

lemma tick_successively:
  "successively (\<lambda>a b. b = profiling_successor a)
     (m_profilingMode rt # snd (IScriptProfiler_Tick b rt))
   \<and> m_profilingMode (fst (IScriptProfiler_Tick b rt)) =
       last (m_profilingMode rt # snd (IScriptProfiler_Tick b rt))"
  by (simp add: IScriptProfiler_Tick_def)

lemma successively_chain:
  "successively P (x # xs) \<Longrightarrow> successively P (last (x # xs) # ys) \<Longrightarrow>
     successively P (x # xs @ ys)"
  by (induction xs arbitrary: x) (auto simp: successively_Cons)

lemma ticks_successively:
  "successively (\<lambda>a b. b = profiling_successor a)
     (m_profilingMode rt # snd (profiler_ticks bs rt))
   \<and> m_profilingMode (fst (profiler_ticks bs rt)) =
       last (m_profilingMode rt # snd (profiler_ticks bs rt))"
proof (induction bs arbitrary: rt)
  case Nil
  then show ?case by simp
next
  case (Cons b bs)
  obtain rt' ms where t: "IScriptProfiler_Tick b rt = (rt', ms)"
    by (cases "IScriptProfiler_Tick b rt")
  obtain rt'' ms' where r: "profiler_ticks bs rt' = (rt'', ms')"
    by (cases "profiler_ticks bs rt'")
  have s1: "successively (\<lambda>a b. b = profiling_successor a) (m_profilingMode rt # ms)"
    and l1: "m_profilingMode rt' = last (m_profilingMode rt # ms)"
    using tick_successively [of rt b] t by simp_all
  have s2: "successively (\<lambda>a b. b = profiling_successor a) (m_profilingMode rt' # ms')"
    and l2: "m_profilingMode rt'' = last (m_profilingMode rt' # ms')"
    using Cons.IH [of rt'] r by simp_all
  have "successively (\<lambda>a b. b = profiling_successor a) (m_profilingMode rt # ms @ ms')"
    using successively_chain [OF s1] s2 l1 by simp
  moreover have "m_profilingMode rt'' = last (m_profilingMode rt # ms @ ms')"
    using l1 l2 by (cases ms') simp_all
  ultimately show ?case
    using t r by simp
qed

text \<open>
  C6. Over any sequence of \<open>IScriptProfiler_Tick\<close> calls the modes that the runtime goes
  through, from the mode it starts in, follow one another in the order
  \<open>None \<rightarrow> Setup \<rightarrow> Profiling \<rightarrow> Shutdown \<rightarrow> None\<close>, and the runtime ends in the last of them.
  A call with \<open>begin = true\<close> in mode \<open>Profiling\<close> and a call with \<open>begin = false\<close> in mode
  \<open>None\<close> change nothing.
\<close>

theorem profiler_follows_cycle:
  "successively (\<lambda>a b. b = profiling_successor a)
     (m_profilingMode rt # snd (profiler_ticks bs rt))
   \<and> m_profilingMode (fst (profiler_ticks bs rt)) =
       last (m_profilingMode rt # snd (profiler_ticks bs rt))
   \<and> IScriptProfiler_Tick True (rt\<lparr>m_profilingMode := Profiling\<rparr>) =
       (rt\<lparr>m_profilingMode := Profiling\<rparr>, [])
   \<and> IScriptProfiler_Tick False (rt\<lparr>m_profilingMode := Mode_None\<rparr>) =
       (rt\<lparr>m_profilingMode := Mode_None\<rparr>, [])
   \<and> snd (IScriptProfiler_Tick True (rt\<lparr>m_profilingMode := Mode_None\<rparr>)) = [Setup, Profiling]
   \<and> snd (IScriptProfiler_Tick False (rt\<lparr>m_profilingMode := Profiling\<rparr>)) = [Shutdown, Mode_None]"
  using ticks_successively [of rt bs] by (simp add: IScriptProfiler_Tick_def)

subsection \<open>The bookmark scheduler\<close>

















end
